theory Spec2Isabelle
  imports Complex_Main "HOL-Library.Sublist"
begin

section \<open>Python strings and values\<close>

text \<open>
  The application is one Streamlit script, \<^verbatim>\<open>src/app.py\<close>, that is executed from top to
  bottom at every user interaction. Its persistent data lives in
  \<^verbatim>\<open>st.session_state\<close>. Strings are modelled as \<^typ>\<open>string\<close>; a session field that
  holds either \<^verbatim>\<open>None\<close> or a \<^verbatim>\<open>str\<close> is a \<^typ>\<open>string option\<close>.
\<close>

definition truthy :: "string option \<Rightarrow> bool" where
  \<comment> \<open>Python truth value of a field holding \<^verbatim>\<open>None\<close> or a string\<close>
  "truthy v = (case v of None \<Rightarrow> False | Some s \<Rightarrow> s \<noteq> [])"

definition lower_char :: "char \<Rightarrow> char" where
  \<comment> \<open>\<^verbatim>\<open>str.lower\<close> on one character: the letters A to Z. Strings are taken as their
      UTF-8 bytes; \<^verbatim>\<open>str.lower\<close> also changes letters outside ASCII, but never into a
      text that contains one of the three ASCII tokens of line 132 where there was none.\<close>
  "lower_char c =
     (case map_of (zip ''ABCDEFGHIJKLMNOPQRSTUVWXYZ'' ''abcdefghijklmnopqrstuvwxyz'') c of
        None \<Rightarrow> c
      | Some l \<Rightarrow> l)"

definition py_lower :: "string \<Rightarrow> string" where
  "py_lower s = map lower_char s"

definition py_replace_char :: "char \<Rightarrow> char \<Rightarrow> string \<Rightarrow> string" where
  \<comment> \<open>\<^verbatim>\<open>s.replace(a, b)\<close> for one-character \<^verbatim>\<open>a\<close> and \<^verbatim>\<open>b\<close>\<close>
  "py_replace_char a b s = map (\<lambda>c. if c = a then b else c) s"

fun py_in :: "string \<Rightarrow> string \<Rightarrow> bool" where
  \<comment> \<open>\<^verbatim>\<open>w in s\<close> on strings\<close>
  "py_in w [] = (w = [])"
| "py_in w (c # cs) = (prefix w (c # cs) \<or> py_in w cs)"

fun split_from :: "string \<Rightarrow> string \<Rightarrow> string \<Rightarrow> string list" where
  \<comment> \<open>\<^verbatim>\<open>s.split(sep)\<close> for a non-empty separator, scanning from the left; the second
      argument collects the current piece in reverse\<close>
  "split_from sep acc [] = [rev acc]"
| "split_from sep acc (c # cs) =
     (if prefix sep (c # cs) then rev acc # split_from sep [] (drop (length sep - 1) cs)
      else split_from sep (c # acc) cs)"

definition split_dash :: "string \<Rightarrow> string list" where
  \<comment> \<open>\<^verbatim>\<open>a.split(" - ")\<close>\<close>
  "split_dash a = split_from '' - '' [] a"

section \<open>Catalog: acts and project types\<close>

definition acts :: "string list" where
  "acts =
    [''22nd Amendment (1951) - Limits presidents to two terms.'',
     ''25th Amendment (1967) - Handles what happens if the president can't do their job.'',
     ''Pendleton Act (1883) - Makes government jobs based on skills, not politics.'',
     ''Hatch Act (1939) - Stops government workers from doing politics on the job.'']"

definition act_names :: "string list" where
  \<comment> \<open>\<^verbatim>\<open>[a.split(" - ")[0] for a in acts]\<close>\<close>
  "act_names = map (\<lambda>a. split_dash a ! 0) acts"

definition act_descs :: "string list" where
  \<comment> \<open>\<^verbatim>\<open>[a.split(" - ")[1] for a in acts]\<close>\<close>
  "act_descs = map (\<lambda>a. split_dash a ! 1) acts"

definition project_types :: "string list" where
  "project_types =
    [''A paragraph describing a scenario'',
     ''A comic strip of a scenario'',
     ''A skit showing a scenario'']"

definition type_map :: "(string \<times> string) list" where
  "type_map =
    [(''A paragraph describing a scenario'', ''paragraph''),
     (''A comic strip of a scenario'', ''comic strip''),
     (''A skit showing a scenario'', ''skit'')]"

section \<open>Prompt builder\<close>

text \<open>
  The system prompt is the f-string of lines 77 to 91. Every line after the first starts
  with the twelve blanks of the source's indentation, which are part of the literal.
\<close>

definition prompt_line :: "string \<Rightarrow> string" where
  "prompt_line txt = ''            '' @ txt @ ''\<newline>''"

definition rule_paragraphs :: string where
  "rule_paragraphs = ''- For paragraphs: Aim for 4-6 sentences.''"

definition rule_comic_strips :: string where
  "rule_comic_strips =
     ''- For comic strips: Create 3-4 panels with simple text descriptions (no images yet).''"

definition rule_skits :: string where
  "rule_skits = ''- For skits: Write a short script with 2-3 characters and simple dialogue.''"

definition rule_one_question :: string where
  "rule_one_question =
     ''- Always ask one question at a time, with 2-4 simple options (e.g., A, B, C) for the student to choose from.''"

definition opening_question :: string where
  "opening_question =
     ''Start by asking: 'What's a fun scenario you can think of for this act? Like, who is involved? (A) A president and vice president, (B) Government workers at a party, (C) Friends talking about elections, (D) Something else - tell me!'' @ [CHR 0x27]"

definition prompt_rules :: string where
  \<open>prompt_rules =
     prompt_line '''' @
     prompt_line ''Rules:'' @
     prompt_line ''- Keep everything simple, positive, and short.'' @
     prompt_line rule_one_question @
     prompt_line ''- Use the student's choices to build the project step by step.'' @
     prompt_line rule_paragraphs @
     prompt_line rule_comic_strips @
     prompt_line rule_skits @
     prompt_line ''- End by generating the full project once enough info is gathered.'' @
     prompt_line ''- If the student says "done" or similar, generate the final output.'' @
     prompt_line ''- Be encouraging: "Great choice!" or "That's a cool idea!"'' @
     prompt_line '''' @
     ''            '' @ opening_question\<close>

definition build_prompt :: "string \<Rightarrow> string \<Rightarrow> string \<Rightarrow> string" where
  \<comment> \<open>arguments: \<^verbatim>\<open>proj_type\<close>, \<^verbatim>\<open>st.session_state.act\<close>, \<^verbatim>\<open>act_desc\<close>\<close>
  "build_prompt proj_type a act_desc =
     ''You are a kind and patient AI teacher assistant for special needs students in a general education classroom. \<newline>'' @
     prompt_line (''Your goal is to help the student create a simple, fun '' @ proj_type @
                  '' about a scenario under the '' @ a @ '': '' @ act_desc @ ''.'') @
     prompt_rules"



section \<open>Messages and the completion gateway\<close>

record message =
  role :: string
  content :: string

text \<open>
  One call of \<^verbatim>\<open>client.chat.completions.create\<close>. The source writes the model argument as
  \<^verbatim>\<open>""grok-4-latest""\<close>, with doubled quotes that Python does not parse; it is taken as
  the string \<^verbatim>\<open>grok-4-latest\<close> that is meant. The two temperatures are the decimal
  literals of the source, as reals.
\<close>

record request =
  model :: string
  messages :: "message list"
  max_tokens :: int
  temperature :: real

datatype pyexc = StopIteration | KeyError | APIError string

text \<open>
  The gateway is a parameter of every script run: it maps a request either to the exception
  the client raises or to \<^verbatim>\<open>response.choices[0].message.content\<close>.
\<close>

type_synonym gateway = "request \<Rightarrow> pyexc + string"

definition gathering_request :: "string \<Rightarrow> message list \<Rightarrow> request" where
  \<comment> \<open>lines 120 to 126\<close>
  "gathering_request sp history =
     \<lparr>model = ''grok-4-latest'',
      messages = \<lparr>role = ''system'', content = sp\<rparr> # history,
      max_tokens = 300,
      temperature = 0.7\<rparr>"

definition final_suffix :: string where
  "final_suffix =
     ''\<newline>\<newline>Now, using all the info from our chat, generate the final project.''"

definition final_request :: "string \<Rightarrow> message list \<Rightarrow> request" where
  \<comment> \<open>lines 140 to 146\<close>
  "final_request sp history =
     \<lparr>model = ''grok-4-latest'',
      messages = \<lparr>role = ''system'', content = sp @ final_suffix\<rparr> # history,
      max_tokens = 800,
      temperature = 0.5\<rparr>"

definition completion_check :: "string \<Rightarrow> bool" where
  \<comment> \<open>line 132: \<^verbatim>\<open>any(word in prompt.lower() for word in ["done", "finish", "ready"])\<close>\<close>
  "completion_check prompt =
     list_ex (\<lambda>word. py_in word (py_lower prompt)) [''done'', ''finish'', ''ready'']"

definition file_name :: "string \<Rightarrow> string \<Rightarrow> string" where
  \<comment> \<open>line 157; arguments: \<^verbatim>\<open>st.session_state.act\<close>, \<^verbatim>\<open>st.session_state.project_type\<close>\<close>
  "file_name a p =
     a @ ''_'' @ py_replace_char (CHR '' '') (CHR ''_'') (py_lower p) @ ''.txt''"

section \<open>Session state\<close>

text \<open>
  \<^verbatim>\<open>st.session_state\<close> restricted to the six keys of the script. A key can be absent
  (before the first run and after the reset handler has deleted it), which is the outer
  \<open>None\<close> of each field of \<open>store\<close>. Lines 34 to 45 give every absent key its default, so
  the rest of the script works on a \<open>session\<close>, where every key is present.
\<close>

record store =
  k_act :: "string option option"
  k_project_type :: "string option option"
  k_chat_history :: "message list option"
  k_system_prompt :: "string option option"
  k_gathering_info :: "bool option"
  k_final_project :: "string option option"

record session =
  act :: "string option"
  project_type :: "string option"
  chat_history :: "message list"
  system_prompt :: "string option"
  gathering_info :: bool
  final_project :: "string option"

definition empty_store :: store where
  "empty_store =
     \<lparr>k_act = None, k_project_type = None, k_chat_history = None,
      k_system_prompt = None, k_gathering_info = None, k_final_project = None\<rparr>"

definition init_state :: "store \<Rightarrow> session" where
  \<comment> \<open>lines 34 to 45\<close>
  "init_state st =
     \<lparr>act = (case k_act st of None \<Rightarrow> None | Some v \<Rightarrow> v),
      project_type = (case k_project_type st of None \<Rightarrow> None | Some v \<Rightarrow> v),
      chat_history = (case k_chat_history st of None \<Rightarrow> [] | Some v \<Rightarrow> v),
      system_prompt = (case k_system_prompt st of None \<Rightarrow> None | Some v \<Rightarrow> v),
      gathering_info = (case k_gathering_info st of None \<Rightarrow> True | Some v \<Rightarrow> v),
      final_project = (case k_final_project st of None \<Rightarrow> None | Some v \<Rightarrow> v)\<rparr>"

definition save :: "session \<Rightarrow> store" where
  \<comment> \<open>the session state a run leaves behind when it has deleted no key\<close>
  "save s =
     \<lparr>k_act = Some (act s), k_project_type = Some (project_type s),
      k_chat_history = Some (chat_history s), k_system_prompt = Some (system_prompt s),
      k_gathering_info = Some (gathering_info s), k_final_project = Some (final_project s)\<rparr>"

definition del_key :: "string \<Rightarrow> store \<Rightarrow> store" where
  \<comment> \<open>\<^verbatim>\<open>del st.session_state[key]\<close>\<close>
  "del_key k st =
     (if k = ''act'' then st\<lparr>k_act := None\<rparr>
      else if k = ''project_type'' then st\<lparr>k_project_type := None\<rparr>
      else if k = ''chat_history'' then st\<lparr>k_chat_history := None\<rparr>
      else if k = ''system_prompt'' then st\<lparr>k_system_prompt := None\<rparr>
      else if k = ''gathering_info'' then st\<lparr>k_gathering_info := None\<rparr>
      else if k = ''final_project'' then st\<lparr>k_final_project := None\<rparr>
      else st)"

definition reset_keys :: "string list" where
  \<comment> \<open>line 163\<close>
  "reset_keys =
     [''act'', ''project_type'', ''chat_history'', ''system_prompt'', ''gathering_info'',
      ''final_project'']"

text \<open>
  The source has no phase variable. The phase of a session is the branch that lines 101,
  110 and 138 select: the information box (Idle), the chat (Gathering), the final
  generation (Finalizing), or none of them (Complete).
\<close>

datatype phase = Idle | Gathering | Finalizing | Complete

definition phase :: "session \<Rightarrow> phase" where
  "phase s =
     (if truthy (act s) \<and> truthy (project_type s) \<and> truthy (system_prompt s) then
        (if gathering_info s then Gathering
         else if \<not> truthy (final_project s) then Finalizing
         else Complete)
      else Idle)"

section \<open>One run of the script\<close>

text \<open>
  What the widgets return in one run: the two select boxes always return their current
  option; at most one of the buttons and the chat input has fired, since each click or
  submission starts a run of its own. A run started by anything else (first load, a change
  of a select box, the download button, \<^verbatim>\<open>st.rerun()\<close>) has \<open>NoTrigger\<close>.
\<close>

datatype trigger = NoTrigger | StartCreating | ChatInput string | CreateAnother

record widgets =
  selected_act :: "string option"
  selected_type :: "string option"
  trig :: trigger

datatype element =
    Warning
  | Info
  | Header string
  | ChatMessage string string
  | Subheader
  | Markdown string
  | DownloadButton string string

datatype ending = Finished | Rerun | Raised pyexc

record outcome =
  store_of :: store
  rendered :: "element list"
  sent :: "request list"
  ending :: ending

definition sidebar_selection :: "widgets \<Rightarrow> session \<Rightarrow> session" where
  \<comment> \<open>lines 58 to 65\<close>
  "sidebar_selection w s =
     (let s1 = (if truthy (selected_act w) then s\<lparr>act := selected_act w\<rparr> else s)
      in if truthy (selected_type w) then s1\<lparr>project_type := selected_type w\<rparr> else s1)"

definition act_desc_of :: "string \<Rightarrow> string option" where
  \<comment> \<open>line 70: the first description whose act name equals the argument;
      \<open>None\<close> is \<^verbatim>\<open>StopIteration\<close>\<close>
  "act_desc_of a = map_option snd (find (\<lambda>(n, d). n = a) (zip act_names act_descs))"

definition start_creating :: "widgets \<Rightarrow> session \<Rightarrow> session \<times> element list \<times> ending" where
  \<comment> \<open>lines 68 to 98, the body of the Start button\<close>
  "start_creating w s =
     (case (act s, project_type s) of
        (Some a, Some p) \<Rightarrow>
          if a \<noteq> [] \<and> p \<noteq> [] then
            (case act_desc_of a of
               None \<Rightarrow> (s, [], Raised StopIteration)
             | Some act_desc \<Rightarrow>
                 (case (case selected_type w of None \<Rightarrow> None | Some t \<Rightarrow> map_of type_map t) of
                    None \<Rightarrow> (s, [], Raised KeyError)
                  | Some proj_type \<Rightarrow>
                      (s\<lparr>system_prompt := Some (build_prompt proj_type a act_desc),
                         gathering_info := True,
                         chat_history := [],
                         final_project := None\<rparr>, [], Rerun)))
          else (s, [Warning], Finished)
      | _ \<Rightarrow> (s, [Warning], Finished))"

definition show_history :: "message list \<Rightarrow> element list" where
  \<comment> \<open>lines 105 to 107\<close>
  "show_history h = map (\<lambda>m. ChatMessage (role m) (content m)) h"

definition gathering_turn :: "trigger \<Rightarrow> gateway \<Rightarrow> string \<Rightarrow> session \<Rightarrow> outcome" where
  \<comment> \<open>lines 112 to 135; the third argument is the system prompt\<close>
  "gathering_turn tr gw sp s =
     (case tr of
        ChatInput prompt \<Rightarrow>
          if prompt = [] then
            \<lparr>store_of = save s, rendered = [], sent = [], ending = Finished\<rparr>
          else
            (let s1 = s\<lparr>chat_history := chat_history s @ [\<lparr>role = ''user'', content = prompt\<rparr>]\<rparr>;
                 req = gathering_request sp (chat_history s1)
             in case gw req of
                  Inl e \<Rightarrow>
                    \<lparr>store_of = save s1, rendered = [ChatMessage ''user'' prompt],
                     sent = [req], ending = Raised e\<rparr>
                | Inr ai_reply \<Rightarrow>
                    (let s2 = s1\<lparr>chat_history :=
                                   chat_history s1 @ [\<lparr>role = ''assistant'', content = ai_reply\<rparr>]\<rparr>;
                         outs = [ChatMessage ''user'' prompt, ChatMessage ''assistant'' ai_reply]
                     in if completion_check prompt then
                          \<lparr>store_of = save (s2\<lparr>gathering_info := False\<rparr>), rendered = outs,
                           sent = [req], ending = Rerun\<rparr>
                        else
                          \<lparr>store_of = save s2, rendered = outs, sent = [req], ending = Finished\<rparr>))
      | _ \<Rightarrow> \<lparr>store_of = save s, rendered = [], sent = [], ending = Finished\<rparr>)"

definition final_generation ::
  "trigger \<Rightarrow> gateway \<Rightarrow> string \<Rightarrow> string \<Rightarrow> string \<Rightarrow> session \<Rightarrow> outcome" where
  \<comment> \<open>lines 139 to 165; arguments three to five are the act, the project type and the
      system prompt\<close>
  "final_generation tr gw a p sp s =
     (let req = final_request sp (chat_history s)
      in case gw req of
           Inl e \<Rightarrow> \<lparr>store_of = save s, rendered = [], sent = [req], ending = Raised e\<rparr>
         | Inr final_output \<Rightarrow>
             (let s1 = s\<lparr>final_project := Some final_output\<rparr>;
                  outs = [Subheader, Markdown final_output,
                          DownloadButton (file_name a p) final_output]
              in if tr = CreateAnother then
                   \<lparr>store_of = fold del_key reset_keys (save s1), rendered = outs,
                    sent = [req], ending = Rerun\<rparr>
                 else
                   \<lparr>store_of = save s1, rendered = outs, sent = [req], ending = Finished\<rparr>))"

definition main_interface :: "trigger \<Rightarrow> gateway \<Rightarrow> session \<Rightarrow> outcome" where
  \<comment> \<open>lines 101 to 167\<close>
  "main_interface tr gw s =
     (case (act s, project_type s, system_prompt s) of
        (Some a, Some p, Some sp) \<Rightarrow>
          if a \<noteq> [] \<and> p \<noteq> [] \<and> sp \<noteq> [] then
            (let r = (if gathering_info s then gathering_turn tr gw sp s
                      else if \<not> truthy (final_project s) then final_generation tr gw a p sp s
                      else \<lparr>store_of = save s, rendered = [], sent = [], ending = Finished\<rparr>)
             in r\<lparr>rendered := Header (''Creating a '' @ py_lower p @ '' about the '' @ a)
                                # show_history (chat_history s) @ rendered r\<rparr>)
          else \<lparr>store_of = save s, rendered = [Info], sent = [], ending = Finished\<rparr>
      | _ \<Rightarrow> \<lparr>store_of = save s, rendered = [Info], sent = [], ending = Finished\<rparr>)"

definition script :: "widgets \<Rightarrow> gateway \<Rightarrow> store \<Rightarrow> outcome" where
  \<comment> \<open>lines 34 to 167\<close>
  "script w gw st =
     (let s1 = sidebar_selection w (init_state st)
      in if trig w = StartCreating then
           (case start_creating w s1 of
              (s2, outs, Finished) \<Rightarrow>
                (let r = main_interface (trig w) gw s2 in r\<lparr>rendered := outs @ rendered r\<rparr>)
            | (s2, outs, e) \<Rightarrow> \<lparr>store_of = save s2, rendered = outs, sent = [], ending = e\<rparr>)
         else main_interface (trig w) gw s1)"

text \<open>
  \<^verbatim>\<open>st.rerun()\<close> abandons the run and starts the script again with no trigger. A run
  without trigger never asks for another rerun (lemma \<open>script_NoTrigger_ending\<close>), so one
  user interaction is at most two runs.
\<close>

definition interaction :: "widgets \<Rightarrow> gateway \<Rightarrow> store \<Rightarrow> outcome" where
  "interaction w gw st =
     (let r = script w gw st
      in if ending r = Rerun then
           (let r2 = script (w\<lparr>trig := NoTrigger\<rparr>) gw (store_of r)
            in r2\<lparr>sent := sent r @ sent r2\<rparr>)
         else r)"

definition wf_widgets :: "widgets \<Rightarrow> bool" where
  \<comment> \<open>each select box returns one of its options\<close>
  "wf_widgets w =
     (list_ex (\<lambda>a. selected_act w = Some a) act_names \<and>
      list_ex (\<lambda>t. selected_type w = Some t) project_types)"

inductive reachable :: "store \<Rightarrow> bool" where
  reachable_init: "reachable empty_store"
| reachable_run: "reachable st \<Longrightarrow> wf_widgets w \<Longrightarrow> reachable (store_of (script w gw st))"

text \<open>
  The same test as \<open>completion_check\<close>, in the words of the specification: some substring
  of the input equals one of the tokens up to the case of its letters.
\<close>

definition ci_substring :: "string \<Rightarrow> string \<Rightarrow> bool" where
  "ci_substring tok inp =
     (\<exists>pre mid post. inp = pre @ mid @ post \<and> py_lower mid = py_lower tok)"

definition normalise_component :: "string \<Rightarrow> string" where
  \<comment> \<open>lowercased, spaces replaced by the separator\<close>
  "normalise_component x = py_replace_char (CHR '' '') (CHR ''_'') (py_lower x)"


text \<open>
  What every run preserves: a final project exists only after the gathering flag was
  cleared under a system prompt, and the transcript holds user and assistant messages only.
\<close>

definition session_inv :: "session \<Rightarrow> bool" where
  "session_inv s =
     ((final_project s \<noteq> None \<longrightarrow>
         \<not> gathering_info s \<and> truthy (system_prompt s) \<and> truthy (act s) \<and>
         truthy (project_type s)) \<and>
      (\<forall>m \<in> set (chat_history s). role m = ''user'' \<or> role m = ''assistant''))"

section \<open>A sample session\<close>

text \<open>
  One session with the Pendleton Act and the comic strip selected, after scenarios 2 to 4
  of the specification: first load, Start, the chat turn \<^verbatim>\<open>I choose A, done\<close> and the
  final generation. The sample gateway answers a gathering request with
  \<^verbatim>\<open>Great choice!\<close> and the final request with \<^verbatim>\<open>Panel 1: ...\<close>.
\<close>

definition demo_widgets :: "trigger \<Rightarrow> widgets" where
  "demo_widgets tr =
     \<lparr>selected_act = Some ''Pendleton Act (1883)'',
      selected_type = Some ''A comic strip of a scenario'',
      trig = tr\<rparr>"


definition demo_gateway :: gateway where
  "demo_gateway r = (if max_tokens r = 300 then Inr ''Great choice!'' else Inr ''Panel 1: ...'')"

definition failing_gateway :: gateway where
  "failing_gateway r = Inl (APIError ''connection error'')"

definition empty_gateway :: gateway where
  "empty_gateway r = Inr []"

definition demo_prompt :: string where
  "demo_prompt =
     build_prompt ''comic strip'' ''Pendleton Act (1883)''
       ''Makes government jobs based on skills, not politics.''"

definition demo_loaded :: store where
  "demo_loaded = store_of (script (demo_widgets NoTrigger) demo_gateway empty_store)"

definition demo_gathering :: store where
  "demo_gathering = store_of (script (demo_widgets StartCreating) demo_gateway demo_loaded)"

definition demo_finalizing :: store where
  "demo_finalizing =
     store_of (script (demo_widgets (ChatInput ''I choose A, done'')) demo_gateway demo_gathering)"

definition demo_chatting :: store where
  \<comment> \<open>the sample session after Start and one chat turn without a completion word\<close>
  "demo_chatting =
     store_of (script (demo_widgets (ChatInput ''I choose A'')) demo_gateway demo_gathering)"

definition demo_complete :: store where
  "demo_complete = store_of (script (demo_widgets NoTrigger) demo_gateway demo_finalizing)"

section \<open>Strings and the catalog\<close>

lemma act_names_eq:
  "act_names =
     [''22nd Amendment (1951)'', ''25th Amendment (1967)'', ''Pendleton Act (1883)'',
      ''Hatch Act (1939)'']"
  by (simp add: act_names_def acts_def split_dash_def)

lemma act_descs_eq:
  "act_descs =
     [''Limits presidents to two terms.'',
      ''Handles what happens if the president can't do their job.'',
      ''Makes government jobs based on skills, not politics.'',
      ''Stops government workers from doing politics on the job.'']"
  by (simp add: act_descs_def acts_def split_dash_def)

text \<open>Every catalog entry splits into exactly a name and a description, so both index reads
  of line 70 are in range.\<close>

lemma split_dash_acts: "list_all (\<lambda>a. length (split_dash a) = 2) acts"
  by (simp add: acts_def split_dash_def)

lemma py_in_sublist: "py_in w s = sublist w s"
  by (induction s) (auto simp: sublist_Cons_right)

lemma lower_char_idem: "lower_char (lower_char c) = lower_char c"
  by (simp add: lower_char_def)

lemma py_lower_idem: "py_lower (py_lower s) = py_lower s"
  by (simp add: py_lower_def lower_char_idem)

lemma ci_substring_py_in:
  assumes "py_lower tok = tok"
  shows "ci_substring tok inp = py_in tok (py_lower inp)"
proof
  assume "ci_substring tok inp"
  then obtain pre mid post where "inp = pre @ mid @ post" "py_lower mid = tok"
    using assms by (auto simp: ci_substring_def)
  then have "py_lower inp = py_lower pre @ tok @ py_lower post"
    by (auto simp: py_lower_def)
  then show "py_in tok (py_lower inp)"
    unfolding py_in_sublist sublist_def by blast
next
  assume "py_in tok (py_lower inp)"
  then obtain ps ss where "map lower_char inp = ps @ tok @ ss"
    unfolding py_in_sublist sublist_def py_lower_def by blast
  then have "\<exists>us vs. inp = us @ vs \<and> ps = map lower_char us \<and> tok @ ss = map lower_char vs"
    by (simp only: map_eq_append_conv)
  then obtain pre rest where 1: "inp = pre @ rest" "map lower_char rest = tok @ ss"
    by metis
  from 1(2) have "\<exists>us vs. rest = us @ vs \<and> tok = map lower_char us \<and> ss = map lower_char vs"
    by (simp only: map_eq_append_conv)
  then obtain mid post where 2: "rest = mid @ post" "map lower_char mid = tok"
    by metis
  from 1(1) 2 have "inp = pre @ mid @ post" "map lower_char mid = tok"
    by simp_all
  then show "ci_substring tok inp"
    using assms by (auto simp: ci_substring_def py_lower_def)
qed

lemma completion_check_ci:
  "completion_check prompt =
     (ci_substring ''done'' prompt \<or> ci_substring ''finish'' prompt \<or> ci_substring ''ready'' prompt)"
proof -
  have "py_lower ''done'' = ''done''" "py_lower ''finish'' = ''finish''"
    "py_lower ''ready'' = ''ready''"
    by (simp_all add: py_lower_def lower_char_def)
  then show ?thesis
    by (simp add: completion_check_def ci_substring_py_in)
qed

section \<open>Runs of the script\<close>

lemma init_state_save: "init_state (save s) = s"
  by (simp add: init_state_def save_def)

lemma reset_store: "fold del_key reset_keys (save s) = empty_store"
  by (simp add: reset_keys_def del_key_def save_def empty_store_def)

lemma init_state_empty:
  "init_state empty_store =
     \<lparr>act = None, project_type = None, chat_history = [], system_prompt = None,
      gathering_info = True, final_project = None\<rparr>"
  by (simp add: init_state_def empty_store_def)

lemma build_prompt_nonempty: "build_prompt pt a d \<noteq> []"
  by (simp add: build_prompt_def)

lemma act_desc_of_names:
  "a \<in> set act_names \<Longrightarrow> \<exists>d. act_desc_of a = Some d \<and> (a, d) \<in> set (zip act_names act_descs)"
  by (auto simp: act_desc_of_def act_names_eq act_descs_eq)

lemma type_map_types: "t \<in> set project_types \<Longrightarrow> \<exists>pt. map_of type_map t = Some pt"
  by (auto simp: project_types_def type_map_def)

lemma wf_widgetsD:
  assumes "wf_widgets w"
  obtains a t d pt where "selected_act w = Some a" "a \<noteq> []" "selected_type w = Some t"
    "t \<noteq> []" "act_desc_of a = Some d" "map_of type_map t = Some pt"
    "a \<in> set act_names" "t \<in> set project_types"
proof -
  from assms obtain a t where a: "selected_act w = Some a" "a \<in> set act_names"
    and t: "selected_type w = Some t" "t \<in> set project_types"
    by (auto simp: wf_widgets_def list_ex_iff)
  from a(2) have "a \<noteq> []" by (auto simp: act_names_eq)
  moreover from t(2) have "t \<noteq> []" by (auto simp: project_types_def)
  moreover from a(2) obtain d where "act_desc_of a = Some d" using act_desc_of_names by blast
  moreover from t(2) obtain pt where "map_of type_map t = Some pt" using type_map_types by blast
  ultimately show ?thesis using a t that by blast
qed

lemma sidebar_wf:
  "selected_act w = Some a \<Longrightarrow> a \<noteq> [] \<Longrightarrow> selected_type w = Some t \<Longrightarrow> t \<noteq> [] \<Longrightarrow>
   sidebar_selection w s = s\<lparr>act := Some a, project_type := Some t\<rparr>"
  by (simp add: sidebar_selection_def truthy_def)

lemma script_start:
  assumes "selected_act w = Some a" "a \<noteq> []" "selected_type w = Some t" "t \<noteq> []"
    "act_desc_of a = Some d" "map_of type_map t = Some pt" "trig w = StartCreating"
  shows "script w gw st =
     \<lparr>store_of = save ((init_state st)\<lparr>act := Some a, project_type := Some t,
          system_prompt := Some (build_prompt pt a d), gathering_info := True,
          chat_history := [], final_project := None\<rparr>),
      rendered = [], sent = [], ending = Rerun\<rparr>"
  using assms by (simp add: script_def sidebar_wf start_creating_def)

lemma script_other:
  assumes "selected_act w = Some a" "a \<noteq> []" "selected_type w = Some t" "t \<noteq> []"
    "trig w \<noteq> StartCreating"
  shows "script w gw st =
     main_interface (trig w) gw ((init_state st)\<lparr>act := Some a, project_type := Some t\<rparr>)"
  using assms by (simp add: script_def sidebar_wf)

lemma session_inv_main:
  assumes "session_inv s" "truthy (act s)" "truthy (project_type s)"
  shows "session_inv (init_state (store_of (main_interface tr gw s)))"
  using assms
  by (auto simp: main_interface_def gathering_turn_def final_generation_def init_state_save
      reset_store session_inv_def truthy_def Let_def init_state_empty
      split: option.splits trigger.splits sum.splits)

lemma session_inv_script:
  assumes "session_inv (init_state st)" "wf_widgets w"
  shows "session_inv (init_state (store_of (script w gw st)))"
proof -
  from assms(2) obtain a t d pt where w: "selected_act w = Some a" "a \<noteq> []"
    "selected_type w = Some t" "t \<noteq> []" "act_desc_of a = Some d" "map_of type_map t = Some pt"
    by (rule wf_widgetsD)
  show ?thesis
  proof (cases "trig w = StartCreating")
    case True
    then show ?thesis using w assms(1)
      by (simp add: script_start[OF w] init_state_save session_inv_def)
  next
    case False
    have "session_inv ((init_state st)\<lparr>act := Some a, project_type := Some t\<rparr>)"
      using assms(1) w by (simp add: session_inv_def truthy_def)
    then show ?thesis using w False
      by (simp add: script_other[OF w(1-4)] session_inv_main truthy_def)
  qed
qed

lemma reachable_session_inv: "reachable st \<Longrightarrow> session_inv (init_state st)"
proof (induction rule: reachable.induct)
  case reachable_init
  show ?case by (simp add: session_inv_def init_state_empty)
next
  case (reachable_run st w gw)
  then show ?case by (simp add: session_inv_script)
qed

text \<open>A run without trigger never asks for a rerun, so \<open>interaction\<close> needs no third run.\<close>

lemma script_NoTrigger_ending:
  "trig w = NoTrigger \<Longrightarrow> ending (script w gw st) \<noteq> Rerun"
  by (auto simp: script_def main_interface_def gathering_turn_def final_generation_def Let_def
      split: option.splits sum.splits)


section \<open>The prompt text\<close>












section \<open>Phases and branches\<close>

lemma phase_GatheringD:
  "phase s = Gathering \<Longrightarrow> \<exists>sp. system_prompt s = Some sp \<and> sp \<noteq> [] \<and> gathering_info s"
  by (auto simp: phase_def truthy_def split: if_splits option.splits)

lemma phase_FinalizingD:
  "phase s = Finalizing \<Longrightarrow>
     \<exists>sp. system_prompt s = Some sp \<and> sp \<noteq> [] \<and> \<not> gathering_info s \<and> \<not> truthy (final_project s)"
  by (auto simp: phase_def truthy_def split: if_splits option.splits)

lemma phase_CompleteD:
  "phase s = Complete \<Longrightarrow>
     \<exists>sp. system_prompt s = Some sp \<and> sp \<noteq> [] \<and> \<not> gathering_info s \<and> truthy (final_project s)"
  by (auto simp: phase_def truthy_def split: if_splits option.splits)

lemma main_gathering:
  assumes "act s = Some a" "a \<noteq> []" "project_type s = Some t" "t \<noteq> []"
    "system_prompt s = Some sp" "sp \<noteq> []" "gathering_info s"
  shows "main_interface tr gw s =
     (gathering_turn tr gw sp s)\<lparr>rendered := Header (''Creating a '' @ py_lower t @ '' about the '' @ a)
        # show_history (chat_history s) @ rendered (gathering_turn tr gw sp s)\<rparr>"
  using assms by (simp add: main_interface_def Let_def)

lemma main_finalizing:
  assumes "act s = Some a" "a \<noteq> []" "project_type s = Some t" "t \<noteq> []"
    "system_prompt s = Some sp" "sp \<noteq> []" "\<not> gathering_info s" "\<not> truthy (final_project s)"
  shows "main_interface tr gw s =
     (final_generation tr gw a t sp s)\<lparr>rendered := Header (''Creating a '' @ py_lower t @ '' about the '' @ a)
        # show_history (chat_history s) @ rendered (final_generation tr gw a t sp s)\<rparr>"
  using assms by (simp add: main_interface_def Let_def)

lemma main_complete:
  assumes "act s = Some a" "a \<noteq> []" "project_type s = Some t" "t \<noteq> []"
    "system_prompt s = Some sp" "sp \<noteq> []" "\<not> gathering_info s" "truthy (final_project s)"
  shows "main_interface tr gw s =
     \<lparr>store_of = save s,
      rendered = Header (''Creating a '' @ py_lower t @ '' about the '' @ a) # show_history (chat_history s),
      sent = [], ending = Finished\<rparr>"
  using assms by (simp add: main_interface_def Let_def)

lemma no_warning_main: "Warning \<notin> set (rendered (main_interface tr gw s))"
  by (auto simp: main_interface_def gathering_turn_def final_generation_def Let_def show_history_def
      split: option.splits trigger.splits sum.splits)

section \<open>The sample session, evaluated\<close>

lemma wf_demo_widgets: "wf_widgets (demo_widgets tr)"
  by (simp add: wf_widgets_def demo_widgets_def act_names_eq project_types_def)

lemma demo_act_desc:
  "act_desc_of ''Pendleton Act (1883)'' = Some ''Makes government jobs based on skills, not politics.''"
  by (simp add: act_desc_of_def act_names_eq act_descs_eq)

lemma demo_type: "map_of type_map ''A comic strip of a scenario'' = Some ''comic strip''"
  by (simp add: type_map_def)

lemma demo_prompt_nonempty: "demo_prompt \<noteq> []"
  by (simp add: demo_prompt_def build_prompt_nonempty)

lemma demo_loaded_eq:
  "demo_loaded =
     save \<lparr>act = Some ''Pendleton Act (1883)'', project_type = Some ''A comic strip of a scenario'',
           chat_history = [], system_prompt = None, gathering_info = True, final_project = None\<rparr>"
  by (simp add: demo_loaded_def script_def demo_widgets_def sidebar_selection_def truthy_def
      init_state_empty main_interface_def Let_def)

lemma demo_gathering_eq:
  "demo_gathering =
     save \<lparr>act = Some ''Pendleton Act (1883)'', project_type = Some ''A comic strip of a scenario'',
           chat_history = [], system_prompt = Some demo_prompt, gathering_info = True,
           final_project = None\<rparr>"
  unfolding demo_gathering_def demo_loaded_eq
  by (subst script_start[where a = "''Pendleton Act (1883)''" and t = "''A comic strip of a scenario''",
        OF _ _ _ _ demo_act_desc demo_type])
     (simp_all add: demo_widgets_def init_state_save demo_prompt_def)

lemma demo_finalizing_eq:
  "demo_finalizing =
     save \<lparr>act = Some ''Pendleton Act (1883)'', project_type = Some ''A comic strip of a scenario'',
           chat_history = [\<lparr>role = ''user'', content = ''I choose A, done''\<rparr>,
                           \<lparr>role = ''assistant'', content = ''Great choice!''\<rparr>],
           system_prompt = Some demo_prompt, gathering_info = False, final_project = None\<rparr>"
proof -
  have cc: "completion_check ''I choose A, done''"
    by (simp add: completion_check_def py_lower_def lower_char_def)
  show ?thesis
    unfolding demo_finalizing_def demo_gathering_eq
    by (subst script_other[where a = "''Pendleton Act (1883)''" and t = "''A comic strip of a scenario''"])
       (simp_all add: demo_widgets_def init_state_save main_interface_def demo_prompt_nonempty
          gathering_turn_def Let_def demo_gateway_def gathering_request_def cc)
qed

lemma demo_chatting_eq:
  "demo_chatting =
     save \<lparr>act = Some ''Pendleton Act (1883)'', project_type = Some ''A comic strip of a scenario'',
           chat_history = [\<lparr>role = ''user'', content = ''I choose A''\<rparr>,
                           \<lparr>role = ''assistant'', content = ''Great choice!''\<rparr>],
           system_prompt = Some demo_prompt, gathering_info = True, final_project = None\<rparr>"
proof -
  have cc: "\<not> completion_check ''I choose A''"
    by (simp add: completion_check_def py_lower_def lower_char_def)
  show ?thesis
    unfolding demo_chatting_def demo_gathering_eq
    by (subst script_other[where a = "''Pendleton Act (1883)''" and t = "''A comic strip of a scenario''"])
       (simp_all add: demo_widgets_def init_state_save main_interface_def demo_prompt_nonempty
          gathering_turn_def Let_def demo_gateway_def gathering_request_def cc)
qed

lemma demo_complete_eq:
  "demo_complete =
     save \<lparr>act = Some ''Pendleton Act (1883)'', project_type = Some ''A comic strip of a scenario'',
           chat_history = [\<lparr>role = ''user'', content = ''I choose A, done''\<rparr>,
                           \<lparr>role = ''assistant'', content = ''Great choice!''\<rparr>],
           system_prompt = Some demo_prompt, gathering_info = False,
           final_project = Some ''Panel 1: ...''\<rparr>"
  unfolding demo_complete_def demo_finalizing_eq
  by (subst script_other[where a = "''Pendleton Act (1883)''" and t = "''A comic strip of a scenario''"])
     (simp_all add: demo_widgets_def init_state_save main_interface_def demo_prompt_nonempty
        final_generation_def Let_def demo_gateway_def final_request_def truthy_def)

lemma reachable_demo:
  "reachable demo_loaded" "reachable demo_gathering" "reachable demo_finalizing"
  "reachable demo_complete"
proof -
  show 1: "reachable demo_loaded"
    unfolding demo_loaded_def by (intro reachable_run reachable_init wf_demo_widgets)
  show 2: "reachable demo_gathering"
    unfolding demo_gathering_def by (intro reachable_run 1 wf_demo_widgets)
  show 3: "reachable demo_finalizing"
    unfolding demo_finalizing_def by (intro reachable_run 2 wf_demo_widgets)
  show "reachable demo_complete"
    unfolding demo_complete_def by (intro reachable_run 3 wf_demo_widgets)
qed

lemma demo_phases:
  "phase (init_state demo_loaded) = Idle" "phase (init_state demo_gathering) = Gathering"
  "phase (init_state demo_finalizing) = Finalizing" "phase (init_state demo_complete) = Complete"
  by (simp_all add: demo_loaded_eq demo_gathering_eq demo_finalizing_eq demo_complete_eq
      init_state_save phase_def truthy_def demo_prompt_nonempty)



section \<open>The reset handler\<close>


lemma reachable_interaction:
  assumes "reachable st" "wf_widgets w"
  shows "reachable (store_of (interaction w gw st))"
proof -
  have "wf_widgets (w\<lparr>trig := NoTrigger\<rparr>)"
    using assms(2) by (simp add: wf_widgets_def)
  then show ?thesis
    using assms by (simp add: interaction_def Let_def reachable_run)
qed

text \<open>
  The reset handler of lines 162 to 165 sits inside the branch of line 138, which is taken
  only while no final project exists. Where it runs, it deletes the six keys and the rerun
  leaves a session in Idle whose act and project type are again those of the select boxes.
  With a final project set the branch is skipped and the click changes nothing but the two
  selections.
\<close>

lemma create_another_in_finalizing:
  assumes "selected_act w = Some a" "a \<noteq> []" "selected_type w = Some t" "t \<noteq> []"
    and "trig w = CreateAnother"
    and "phase (init_state st) = Finalizing"
    and "system_prompt (init_state st) = Some sp"
    and "gw (final_request sp (chat_history (init_state st))) = Inr out"
  shows "store_of (script w gw st) = empty_store"
    and "ending (script w gw st) = Rerun"
    and "init_state (store_of (interaction w gw st)) =
           \<lparr>act = Some a, project_type = Some t, chat_history = [], system_prompt = None,
            gathering_info = True, final_project = None\<rparr>"
proof -
  from phase_FinalizingD[OF assms(6)] assms(7)
  have s: "sp \<noteq> []" "\<not> gathering_info (init_state st)" "\<not> truthy (final_project (init_state st))"
    by auto
  let ?s1 = "(init_state st)\<lparr>act := Some a, project_type := Some t\<rparr>"
  have ne: "trig w \<noteq> StartCreating" using assms(5) by simp
  have "main_interface (trig w) gw ?s1 = (final_generation (trig w) gw a t sp ?s1)\<lparr>rendered :=
       Header (''Creating a '' @ py_lower t @ '' about the '' @ a)
        # show_history (chat_history ?s1) @ rendered (final_generation (trig w) gw a t sp ?s1)\<rparr>"
    using assms(2,4,7) s by (intro main_finalizing) simp_all
  then have eq: "script w gw st = (final_generation (trig w) gw a t sp ?s1)\<lparr>rendered :=
       Header (''Creating a '' @ py_lower t @ '' about the '' @ a)
        # show_history (chat_history ?s1) @ rendered (final_generation (trig w) gw a t sp ?s1)\<rparr>"
    by (simp add: script_other[OF assms(1-4) ne])
  show 1: "store_of (script w gw st) = empty_store"
    unfolding eq using assms(5,8) by (simp add: final_generation_def Let_def reset_store)
  show 2: "ending (script w gw st) = Rerun"
    unfolding eq using assms(5,8) by (simp add: final_generation_def Let_def)
  have 3: "script (w\<lparr>trig := NoTrigger\<rparr>) gw empty_store =
      main_interface NoTrigger gw ((init_state empty_store)\<lparr>act := Some a, project_type := Some t\<rparr>)"
    using assms(1-4) by (subst script_other[where a = a and t = t]) simp_all
  show "init_state (store_of (interaction w gw st)) =
           \<lparr>act = Some a, project_type = Some t, chat_history = [], system_prompt = None,
            gathering_info = True, final_project = None\<rparr>"
    by (simp add: interaction_def Let_def 1 2 3 init_state_empty main_interface_def init_state_save)
qed

lemma create_another_in_complete:
  assumes "selected_act w = Some a" "a \<noteq> []" "selected_type w = Some t" "t \<noteq> []"
    and "trig w = CreateAnother"
    and "phase (init_state st) = Complete"
  shows "interaction w gw st =
     \<lparr>store_of = save ((init_state st)\<lparr>act := Some a, project_type := Some t\<rparr>),
      rendered = Header (''Creating a '' @ py_lower t @ '' about the '' @ a)
                   # show_history (chat_history (init_state st)),
      sent = [], ending = Finished\<rparr>"
proof -
  from phase_CompleteD[OF assms(6)] obtain sp where
    s: "system_prompt (init_state st) = Some sp" "sp \<noteq> []" "\<not> gathering_info (init_state st)"
      "truthy (final_project (init_state st))"
    by blast
  let ?s1 = "(init_state st)\<lparr>act := Some a, project_type := Some t\<rparr>"
  have ne: "trig w \<noteq> StartCreating" using assms(5) by simp
  have "main_interface (trig w) gw ?s1 =
     \<lparr>store_of = save ?s1,
      rendered = Header (''Creating a '' @ py_lower t @ '' about the '' @ a) # show_history (chat_history ?s1),
      sent = [], ending = Finished\<rparr>"
    using assms(2,4) s by (intro main_complete[where sp = sp]) simp_all
  then show ?thesis
    by (simp add: interaction_def Let_def script_other[OF assms(1-4) ne])
qed

section \<open>Claims\<close>

subsection \<open>Completion trigger\<close>

text \<open>
  C1. During Gathering, a chat input that contains \<^verbatim>\<open>done\<close>, \<^verbatim>\<open>finish\<close> or \<^verbatim>\<open>ready\<close> as a
  substring up to case moves the session to Finalizing when the gateway has replied: the
  run ends with the user message and the assistant reply as the last two entries of the
  transcript, the phase Finalizing and a request to rerun. An input with none of the three
  substrings leaves the phase Gathering after a reply. A gateway failure leaves the phase
  Gathering whatever the input contains, since the test of line 132 comes after the call
  and the append of the reply.
\<close>

theorem completion_trigger:
  assumes "reachable st" "wf_widgets w"
    and "phase (init_state st) = Gathering"
    and "trig w = ChatInput prompt"
    and "system_prompt (init_state st) = Some sp"
  shows "(gw (gathering_request sp
              (chat_history (init_state st) @ [\<lparr>role = ''user'', content = prompt\<rparr>])) = Inr reply \<longrightarrow>
           (ci_substring ''done'' prompt \<or> ci_substring ''finish'' prompt \<or> ci_substring ''ready'' prompt \<longrightarrow>
              phase (init_state (store_of (script w gw st))) = Finalizing \<and>
              ending (script w gw st) = Rerun \<and>
              chat_history (init_state (store_of (script w gw st))) =
                chat_history (init_state st) @
                  [\<lparr>role = ''user'', content = prompt\<rparr>, \<lparr>role = ''assistant'', content = reply\<rparr>]) \<and>
           (\<not> (ci_substring ''done'' prompt \<or> ci_substring ''finish'' prompt \<or> ci_substring ''ready'' prompt) \<longrightarrow>
              phase (init_state (store_of (script w gw st))) = Gathering \<and>
              ending (script w gw st) = Finished)) \<and>
         (gw (gathering_request sp
              (chat_history (init_state st) @ [\<lparr>role = ''user'', content = prompt\<rparr>])) = Inl e \<longrightarrow>
            phase (init_state (store_of (script w gw st))) = Gathering)"
proof -
  from assms(2) obtain a t where w: "selected_act w = Some a" "a \<noteq> []"
    "selected_type w = Some t" "t \<noteq> []"
    by (rule wf_widgetsD)
  from phase_GatheringD[OF assms(3)] assms(5)
  have s: "sp \<noteq> []" "gathering_info (init_state st)" by auto
  from reachable_session_inv[OF assms(1)] s(2)
  have fp: "final_project (init_state st) = None"
    by (auto simp: session_inv_def)
  have ne: "completion_check prompt \<Longrightarrow> prompt \<noteq> []"
    by (auto simp: completion_check_def py_lower_def)
  let ?s1 = "(init_state st)\<lparr>act := Some a, project_type := Some t\<rparr>"
  have "script w gw st = main_interface (trig w) gw ?s1"
    using assms w by (simp add: script_other)
  also have "\<dots> = (gathering_turn (trig w) gw sp ?s1)\<lparr>rendered :=
       Header (''Creating a '' @ py_lower t @ '' about the '' @ a)
        # show_history (chat_history ?s1) @ rendered (gathering_turn (trig w) gw sp ?s1)\<rparr>"
    using w s assms(5) by (intro main_gathering) simp_all
  finally have eq: "script w gw st = (gathering_turn (trig w) gw sp ?s1)\<lparr>rendered :=
       Header (''Creating a '' @ py_lower t @ '' about the '' @ a)
        # show_history (chat_history ?s1) @ rendered (gathering_turn (trig w) gw sp ?s1)\<rparr>" .
  show ?thesis
    unfolding eq completion_check_ci[symmetric]
    using assms(4,5) s fp w ne
    by (cases "completion_check prompt"; cases "prompt = []")
       (simp_all add: gathering_turn_def Let_def init_state_save phase_def truthy_def)
qed

theorem completion_trigger_witness:
  "reachable demo_gathering \<and> wf_widgets (demo_widgets (ChatInput ''I choose A, done'')) \<and>
   phase (init_state demo_gathering) = Gathering \<and>
   ci_substring ''done'' ''I choose A, done'' \<and>
   phase (init_state (store_of
     (script (demo_widgets (ChatInput ''I choose A, done'')) demo_gateway demo_gathering))) = Finalizing \<and>
   chat_history (init_state (store_of
     (script (demo_widgets (ChatInput ''I choose A, done'')) demo_gateway demo_gathering))) =
     [\<lparr>role = ''user'', content = ''I choose A, done''\<rparr>,
      \<lparr>role = ''assistant'', content = ''Great choice!''\<rparr>]"
proof -
  have ci: "ci_substring ''done'' ''I choose A, done''"
    by (simp add: ci_substring_py_in py_lower_def lower_char_def)
  have sp: "system_prompt (init_state demo_gathering) = Some demo_prompt"
    and h: "chat_history (init_state demo_gathering) = []"
    by (simp_all add: demo_gathering_eq init_state_save)
  have tr: "trig (demo_widgets (ChatInput ''I choose A, done'')) = ChatInput ''I choose A, done''"
    by (simp add: demo_widgets_def)
  have gw: "demo_gateway (gathering_request demo_prompt
      (chat_history (init_state demo_gathering) @ [\<lparr>role = ''user'', content = ''I choose A, done''\<rparr>]))
      = Inr ''Great choice!''"
    by (simp add: demo_gateway_def gathering_request_def)
  show ?thesis
    using completion_trigger[OF reachable_demo(2) wf_demo_widgets[of "ChatInput ''I choose A, done''"]
        demo_phases(2) tr sp, of demo_gateway "''Great choice!''"]
      ci gw h reachable_demo(2) wf_demo_widgets[of "ChatInput ''I choose A, done''"] demo_phases(2)
    by simp
qed

subsection \<open>Gateway failure during Gathering\<close>

text \<open>
  C3. When the gateway call of a gathering turn raises, the run ends with that exception,
  the phase is still Gathering, no final project is set, and the transcript is the old one
  followed by the user message alone: the user message was appended before the call and
  stays, no assistant message is appended.
\<close>

theorem gateway_failure_gathering:
  assumes "reachable st" "wf_widgets w"
    and "phase (init_state st) = Gathering"
    and "trig w = ChatInput prompt" "prompt \<noteq> []"
    and "system_prompt (init_state st) = Some sp"
    and "gw (gathering_request sp
              (chat_history (init_state st) @ [\<lparr>role = ''user'', content = prompt\<rparr>])) = Inl e"
  shows "ending (script w gw st) = Raised e \<and>
         phase (init_state (store_of (script w gw st))) = Gathering \<and>
         final_project (init_state (store_of (script w gw st))) = None \<and>
         chat_history (init_state (store_of (script w gw st))) =
           chat_history (init_state st) @ [\<lparr>role = ''user'', content = prompt\<rparr>]"
proof -
  from assms(2) obtain a t where w: "selected_act w = Some a" "a \<noteq> []"
    "selected_type w = Some t" "t \<noteq> []"
    by (rule wf_widgetsD)
  from phase_GatheringD[OF assms(3)] assms(6)
  have s: "sp \<noteq> []" "gathering_info (init_state st)" by auto
  from reachable_session_inv[OF assms(1)] s(2)
  have fp: "final_project (init_state st) = None"
    by (auto simp: session_inv_def)
  let ?s1 = "(init_state st)\<lparr>act := Some a, project_type := Some t\<rparr>"
  have "script w gw st = main_interface (trig w) gw ?s1"
    using assms w by (simp add: script_other)
  also have "\<dots> = (gathering_turn (trig w) gw sp ?s1)\<lparr>rendered :=
       Header (''Creating a '' @ py_lower t @ '' about the '' @ a)
        # show_history (chat_history ?s1) @ rendered (gathering_turn (trig w) gw sp ?s1)\<rparr>"
    using w s assms(6) by (intro main_gathering) simp_all
  finally show ?thesis
    using assms(4,5,6,7) s fp w
    by (simp add: gathering_turn_def Let_def init_state_save phase_def truthy_def)
qed

theorem gateway_failure_gathering_witness:
  "reachable demo_gathering \<and> wf_widgets (demo_widgets (ChatInput ''hello'')) \<and>
   phase (init_state demo_gathering) = Gathering \<and>
   ending (script (demo_widgets (ChatInput ''hello'')) failing_gateway demo_gathering) =
     Raised (APIError ''connection error'') \<and>
   phase (init_state (store_of
     (script (demo_widgets (ChatInput ''hello'')) failing_gateway demo_gathering))) = Gathering \<and>
   final_project (init_state (store_of
     (script (demo_widgets (ChatInput ''hello'')) failing_gateway demo_gathering))) = None \<and>
   chat_history (init_state (store_of
     (script (demo_widgets (ChatInput ''hello'')) failing_gateway demo_gathering))) =
     [\<lparr>role = ''user'', content = ''hello''\<rparr>]"
proof -
  have sp: "system_prompt (init_state demo_gathering) = Some demo_prompt"
    and h: "chat_history (init_state demo_gathering) = []"
    by (simp_all add: demo_gathering_eq init_state_save)
  have tr: "trig (demo_widgets (ChatInput ''hello'')) = ChatInput ''hello''"
    by (simp add: demo_widgets_def)
  have ne: "''hello'' \<noteq> []" by simp
  have gw: "failing_gateway (gathering_request demo_prompt
      (chat_history (init_state demo_gathering) @ [\<lparr>role = ''user'', content = ''hello''\<rparr>]))
      = Inl (APIError ''connection error'')"
    by (simp add: failing_gateway_def)
  show ?thesis
    using gateway_failure_gathering[where gw = failing_gateway, OF reachable_demo(2) wf_demo_widgets[of "ChatInput ''hello''"]
        demo_phases(2) tr ne sp gw]
      h reachable_demo(2) wf_demo_widgets[of "ChatInput ''hello''"] demo_phases(2)
    by simp
qed

subsection \<open>Export file name\<close>

text \<open>
  C6, as the code has it. In the run that generates the final project the download button
  is rendered with a file name that is a function of the selected act and project type
  alone: the act as it is, an underscore, the project type in lower case with every blank
  replaced by an underscore, and \<^verbatim>\<open>.txt\<close>. Only the project type is lowercased and has its
  blanks replaced.
\<close>

theorem download_file_name:
  assumes "wf_widgets w" "selected_act w = Some a" "selected_type w = Some t"
    and "trig w \<noteq> StartCreating"
    and "phase (init_state st) = Finalizing"
    and "system_prompt (init_state st) = Some sp"
    and "gw (final_request sp (chat_history (init_state st))) = Inr out"
  shows "DownloadButton (a @ ''_'' @ py_replace_char (CHR '' '') (CHR ''_'') (py_lower t) @ ''.txt'') out
           \<in> set (rendered (script w gw st))"
proof -
  from assms(1-3) have ne: "a \<noteq> []" "t \<noteq> []"
    by (auto elim!: wf_widgetsD)
  from phase_FinalizingD[OF assms(5)] assms(6)
  have s: "sp \<noteq> []" "\<not> gathering_info (init_state st)" "\<not> truthy (final_project (init_state st))"
    by auto
  let ?s1 = "(init_state st)\<lparr>act := Some a, project_type := Some t\<rparr>"
  have "script w gw st = main_interface (trig w) gw ?s1"
    using assms ne by (simp add: script_other)
  also have "\<dots> = (final_generation (trig w) gw a t sp ?s1)\<lparr>rendered :=
       Header (''Creating a '' @ py_lower t @ '' about the '' @ a)
        # show_history (chat_history ?s1) @ rendered (final_generation (trig w) gw a t sp ?s1)\<rparr>"
    using ne s assms(6) by (intro main_finalizing) simp_all
  finally show ?thesis
    using assms(7) by (simp add: final_generation_def Let_def file_name_def)
qed

theorem download_file_name_witness:
  "wf_widgets (demo_widgets NoTrigger) \<and> phase (init_state demo_finalizing) = Finalizing \<and>
   DownloadButton ''Pendleton Act (1883)_a_comic_strip_of_a_scenario.txt'' ''Panel 1: ...''
     \<in> set (rendered (script (demo_widgets NoTrigger) demo_gateway demo_finalizing))"
proof -
  have sp: "system_prompt (init_state demo_finalizing) = Some demo_prompt"
    by (simp add: demo_finalizing_eq init_state_save)
  have gw: "demo_gateway (final_request demo_prompt (chat_history (init_state demo_finalizing)))
      = Inr ''Panel 1: ...''"
    by (simp add: demo_gateway_def final_request_def)
  have w: "selected_act (demo_widgets NoTrigger) = Some ''Pendleton Act (1883)''"
    "selected_type (demo_widgets NoTrigger) = Some ''A comic strip of a scenario''"
    "trig (demo_widgets NoTrigger) \<noteq> StartCreating"
    by (simp_all add: demo_widgets_def)
  have n: "py_replace_char (CHR '' '') (CHR ''_'') (py_lower ''A comic strip of a scenario'') =
      ''a_comic_strip_of_a_scenario''"
    by (simp add: py_replace_char_def py_lower_def lower_char_def)
  show ?thesis
    using download_file_name[where gw = demo_gateway, OF wf_demo_widgets[of NoTrigger] w demo_phases(3) sp gw]
      wf_demo_widgets[of NoTrigger] demo_phases(3)
    by (simp add: n)
qed

text \<open>
  C6 as stated fails: the act component of the file name keeps its capitals and blanks.
\<close>

theorem file_name_counterexample:
  "file_name ''Pendleton Act (1883)'' ''A comic strip of a scenario'' =
     ''Pendleton Act (1883)_a_comic_strip_of_a_scenario.txt'' \<and>
   file_name ''Pendleton Act (1883)'' ''A comic strip of a scenario'' \<noteq>
     normalise_component ''Pendleton Act (1883)'' @ ''_'' @
     normalise_component ''A comic strip of a scenario'' @ ''.txt'' \<and>
   CHR '' '' \<in> set (file_name ''Pendleton Act (1883)'' ''A comic strip of a scenario'') \<and>
   CHR ''P'' \<in> set (file_name ''Pendleton Act (1883)'' ''A comic strip of a scenario'')"
  by (simp add: file_name_def normalise_component_def py_replace_char_def py_lower_def
      lower_char_def)

subsection \<open>Token budget and temperature\<close>

text \<open>
  C7. Every request of a gathering turn has \<^verbatim>\<open>max_tokens\<close> 300 and temperature 0.7, every
  request of the final generation has \<^verbatim>\<open>max_tokens\<close> 800 and temperature 0.5; so the final
  generation has the strictly larger budget and the strictly lower temperature.
\<close>

theorem gateway_budgets:
  assumes "r \<in> set (sent (gathering_turn tr gw sp s))"
    and "r' \<in> set (sent (final_generation tr' gw' a p sp' s'))"
  shows "max_tokens r = 300 \<and> temperature r = 0.7 \<and> max_tokens r' = 800 \<and>
         temperature r' = 0.5 \<and> max_tokens r < max_tokens r' \<and> temperature r' < temperature r"
proof -
  from assms(1) have "r = gathering_request sp (chat_history s @ [\<lparr>role = ''user'', content = (case tr of ChatInput x \<Rightarrow> x | _ \<Rightarrow> [])\<rparr>])"
    by (auto simp: gathering_turn_def Let_def split: trigger.splits if_splits sum.splits)
  moreover from assms(2) have "r' = final_request sp' (chat_history s')"
    by (auto simp: final_generation_def Let_def split: if_splits sum.splits)
  ultimately show ?thesis
    by (simp add: gathering_request_def final_request_def)
qed

theorem gateway_budgets_witness:
  "gathering_request demo_prompt [\<lparr>role = ''user'', content = ''hello''\<rparr>]
     \<in> set (sent (gathering_turn (ChatInput ''hello'') demo_gateway demo_prompt
                    (init_state demo_gathering))) \<and>
   final_request demo_prompt (chat_history (init_state demo_finalizing))
     \<in> set (sent (final_generation NoTrigger demo_gateway ''Pendleton Act (1883)''
                    ''A comic strip of a scenario'' demo_prompt (init_state demo_finalizing))) \<and>
   max_tokens (gathering_request demo_prompt [\<lparr>role = ''user'', content = ''hello''\<rparr>]) = 300 \<and>
   max_tokens (final_request demo_prompt (chat_history (init_state demo_finalizing))) = 800 \<and>
   temperature (final_request demo_prompt (chat_history (init_state demo_finalizing))) <
     temperature (gathering_request demo_prompt [\<lparr>role = ''user'', content = ''hello''\<rparr>])"
proof -
  have 1: "gathering_request demo_prompt [\<lparr>role = ''user'', content = ''hello''\<rparr>]
     \<in> set (sent (gathering_turn (ChatInput ''hello'') demo_gateway demo_prompt
                    (init_state demo_gathering)))"
    by (simp add: gathering_turn_def Let_def demo_gateway_def gathering_request_def
        demo_gathering_eq init_state_save)
  have 2: "final_request demo_prompt (chat_history (init_state demo_finalizing))
     \<in> set (sent (final_generation NoTrigger demo_gateway ''Pendleton Act (1883)''
                    ''A comic strip of a scenario'' demo_prompt (init_state demo_finalizing)))"
    by (simp add: final_generation_def Let_def demo_gateway_def final_request_def)
  show ?thesis
    using gateway_budgets[OF 1 2] 1 2 by simp
qed

subsection \<open>Selections are always set\<close>

text \<open>
  C9. When the select boxes return one of their options, as they always do, both
  \<^verbatim>\<open>act\<close> and \<^verbatim>\<open>project_type\<close> are set and non-empty before the Start button is
  evaluated, and no run renders the warning of line 98.
\<close>

theorem start_selection_always_set:
  assumes "wf_widgets w"
  shows "truthy (act (sidebar_selection w (init_state st))) \<and>
         truthy (project_type (sidebar_selection w (init_state st))) \<and>
         Warning \<notin> set (rendered (script w gw st))"
proof -
  from assms obtain a t d pt where w: "selected_act w = Some a" "a \<noteq> []"
    "selected_type w = Some t" "t \<noteq> []" "act_desc_of a = Some d" "map_of type_map t = Some pt"
    by (rule wf_widgetsD)
  have "Warning \<notin> set (rendered (script w gw st))"
  proof (cases "trig w = StartCreating")
    case True
    then show ?thesis by (simp add: script_start[OF w])
  next
    case False
    then show ?thesis by (simp add: script_other[OF w(1-4)] no_warning_main)
  qed
  then show ?thesis using w by (simp add: sidebar_wf[OF w(1-4)] truthy_def)
qed

theorem start_selection_always_set_witness:
  "wf_widgets (demo_widgets StartCreating) \<and>
   truthy (act (sidebar_selection (demo_widgets StartCreating) (init_state empty_store))) \<and>
   truthy (project_type (sidebar_selection (demo_widgets StartCreating) (init_state empty_store))) \<and>
   Warning \<notin> set (rendered (script (demo_widgets StartCreating) demo_gateway empty_store))"
  using start_selection_always_set[OF wf_demo_widgets, of StartCreating empty_store demo_gateway]
    wf_demo_widgets[of StartCreating]
  by simp

subsection \<open>Final project and phase\<close>

text \<open>
  C2. In every reachable session the final project is set and non-empty exactly when the
  phase is Complete. A run in Finalizing with a gateway that replies the empty string does
  not end in Complete, and its final project is not a non-empty string.
\<close>

theorem final_artifact_iff_complete:
  assumes "reachable st"
  shows "(truthy (final_project (init_state st)) \<longleftrightarrow> phase (init_state st) = Complete) \<and>
         (\<forall>w gw. wf_widgets w \<and> phase (init_state st) = Finalizing \<and>
             (\<forall>r. gw r = Inr []) \<longrightarrow>
             phase (init_state (store_of (script w gw st))) \<noteq> Complete \<and>
             \<not> truthy (final_project (init_state (store_of (script w gw st)))))"
proof -
  have iff: "truthy (final_project (init_state st')) \<longleftrightarrow> phase (init_state st') = Complete"
    if "reachable st'" for st'
    using reachable_session_inv[OF that]
    by (auto simp: session_inv_def phase_def truthy_def split: option.splits)
  have fin: "\<not> truthy (final_project (init_state (store_of (script w gw st))))"
    if wf: "wf_widgets w" and ph: "phase (init_state st) = Finalizing" and gw: "\<forall>r. gw r = Inr []"
    for w gw
  proof -
    from wf obtain a t d pt where w: "selected_act w = Some a" "a \<noteq> []"
      "selected_type w = Some t" "t \<noteq> []" "act_desc_of a = Some d" "map_of type_map t = Some pt"
      by (rule wf_widgetsD)
    from phase_FinalizingD[OF ph] obtain sp where s: "system_prompt (init_state st) = Some sp"
      "sp \<noteq> []" "\<not> gathering_info (init_state st)" "\<not> truthy (final_project (init_state st))"
      by blast
    show ?thesis
    proof (cases "trig w = StartCreating")
      case True
      then show ?thesis by (simp add: script_start[OF w] init_state_save truthy_def)
    next
      case False
      let ?s1 = "(init_state st)\<lparr>act := Some a, project_type := Some t\<rparr>"
      have "main_interface (trig w) gw ?s1 = (final_generation (trig w) gw a t sp ?s1)\<lparr>rendered :=
         Header (''Creating a '' @ py_lower t @ '' about the '' @ a)
          # show_history (chat_history ?s1) @ rendered (final_generation (trig w) gw a t sp ?s1)\<rparr>"
        using w s by (intro main_finalizing) simp_all
      then show ?thesis
        using gw by (simp add: script_other[OF w(1-4) False] final_generation_def Let_def
            init_state_save reset_store init_state_empty truthy_def)
    qed
  qed
  show ?thesis
    using iff[OF assms] fin iff[OF reachable_run[OF assms]] by blast
qed

theorem final_artifact_iff_complete_witness:
  "reachable demo_complete \<and> truthy (final_project (init_state demo_complete)) \<and>
   phase (init_state demo_complete) = Complete \<and>
   reachable demo_finalizing \<and> wf_widgets (demo_widgets NoTrigger) \<and>
   phase (init_state demo_finalizing) = Finalizing \<and>
   phase (init_state (store_of (script (demo_widgets NoTrigger) empty_gateway demo_finalizing))) \<noteq>
     Complete"
proof -
  have gw: "\<forall>r. empty_gateway r = Inr []"
    by (simp add: empty_gateway_def)
  show ?thesis
    using final_artifact_iff_complete[OF reachable_demo(4)]
      final_artifact_iff_complete[OF reachable_demo(3)]
      gw reachable_demo(3,4) demo_phases(3,4) wf_demo_widgets[of NoTrigger]
    by blast
qed

subsection \<open>Start of a session\<close>

text \<open>
  C4, as the code has it. The Start button of line 67 is in the sidebar and is not guarded
  by the phase. A run with the Start button pressed, from Idle or from any later phase,
  ends in Gathering with the system prompt built by the prompt builder, the empty
  transcript and no final project, and asks for a rerun. A run whose trigger is neither
  the Start button nor the reset button keeps the old transcript as a prefix of the new
  one.
\<close>

theorem start_transition:
  assumes "wf_widgets w"
  shows "(trig w = StartCreating \<longrightarrow>
            ending (script w gw st) = Rerun \<and>
            phase (init_state (store_of (script w gw st))) = Gathering \<and>
            chat_history (init_state (store_of (script w gw st))) = [] \<and>
            final_project (init_state (store_of (script w gw st))) = None \<and>
            (\<exists>a t d pt. selected_act w = Some a \<and> selected_type w = Some t \<and>
               act_desc_of a = Some d \<and> map_of type_map t = Some pt \<and>
               system_prompt (init_state (store_of (script w gw st))) =
                 Some (build_prompt pt a d))) \<and>
         (trig w \<noteq> StartCreating \<and> trig w \<noteq> CreateAnother \<longrightarrow>
            prefix (chat_history (init_state st))
                   (chat_history (init_state (store_of (script w gw st)))))"
proof -
  from assms(1) obtain a t d pt where w: "selected_act w = Some a" "a \<noteq> []"
    "selected_type w = Some t" "t \<noteq> []" "act_desc_of a = Some d" "map_of type_map t = Some pt"
    by (rule wf_widgetsD)
  have 1: ?thesis if tr: "trig w = StartCreating"
    using tr w
    by (simp add: script_start[OF w tr] init_state_save phase_def truthy_def build_prompt_nonempty)
  have 2: "prefix (chat_history (init_state st))
                   (chat_history (init_state (store_of (script w gw st))))"
    if tr: "trig w \<noteq> StartCreating" "trig w \<noteq> CreateAnother"
    using tr
    by (auto simp: script_other[OF w(1-4) tr(1)] main_interface_def gathering_turn_def
        final_generation_def Let_def init_state_save
        split: option.splits trigger.splits sum.splits)
  show ?thesis using 1 2 by blast
qed

theorem start_transition_witness:
  "wf_widgets (demo_widgets StartCreating) \<and>
   phase (init_state demo_loaded) = Idle \<and>
   ending (script (demo_widgets StartCreating) demo_gateway demo_loaded) = Rerun \<and>
   phase (init_state (store_of (script (demo_widgets StartCreating) demo_gateway demo_loaded))) =
     Gathering \<and>
   chat_history (init_state (store_of
     (script (demo_widgets StartCreating) demo_gateway demo_loaded))) = [] \<and>
   final_project (init_state (store_of
     (script (demo_widgets StartCreating) demo_gateway demo_loaded))) = None \<and>
   prefix (chat_history (init_state demo_finalizing))
     (chat_history (init_state (store_of
        (script (demo_widgets NoTrigger) demo_gateway demo_finalizing))))"
proof -
  have tr: "trig (demo_widgets StartCreating) = StartCreating"
    "trig (demo_widgets NoTrigger) \<noteq> StartCreating \<and> trig (demo_widgets NoTrigger) \<noteq> CreateAnother"
    by (simp_all add: demo_widgets_def)
  show ?thesis
    using start_transition[OF wf_demo_widgets[of StartCreating], of demo_gateway demo_loaded]
      start_transition[OF wf_demo_widgets[of NoTrigger], of demo_gateway demo_finalizing]
      tr wf_demo_widgets[of StartCreating] demo_phases(1)
    by blast
qed

text \<open>
  C4 as stated fails: the transcript is not emptied at the transition from Idle to
  Gathering alone. In the sample session in Gathering, with two messages in the
  transcript, a click on Start empties the transcript, and the phase is Gathering before
  and after.
\<close>

theorem start_in_gathering_counterexample:
  "reachable demo_chatting \<and>
   phase (init_state demo_chatting) = Gathering \<and>
   chat_history (init_state demo_chatting) =
     [\<lparr>role = ''user'', content = ''I choose A''\<rparr>,
      \<lparr>role = ''assistant'', content = ''Great choice!''\<rparr>] \<and>
   chat_history (init_state (store_of
     (script (demo_widgets StartCreating) demo_gateway demo_chatting))) = [] \<and>
   phase (init_state (store_of
     (script (demo_widgets StartCreating) demo_gateway demo_chatting))) = Gathering"
proof -
  have r: "reachable demo_chatting"
    unfolding demo_chatting_def by (intro reachable_run reachable_demo(2) wf_demo_widgets)
  have s: "script (demo_widgets StartCreating) demo_gateway demo_chatting =
     \<lparr>store_of = save ((init_state demo_chatting)\<lparr>act := Some ''Pendleton Act (1883)'',
          project_type := Some ''A comic strip of a scenario'',
          system_prompt := Some (build_prompt ''comic strip'' ''Pendleton Act (1883)''
            ''Makes government jobs based on skills, not politics.''),
          gathering_info := True, chat_history := [], final_project := None\<rparr>),
      rendered = [], sent = [], ending = Rerun\<rparr>"
    by (rule script_start[OF _ _ _ _ demo_act_desc demo_type]) (simp_all add: demo_widgets_def)
  show ?thesis
    unfolding s using r
    by (simp add: demo_chatting_eq init_state_save phase_def truthy_def demo_prompt_nonempty
        build_prompt_nonempty)
qed

subsection \<open>Reset\<close>

text \<open>
  C5. The claim is that the reset action from Complete clears every session field and
  returns the session to Idle. In the sample session, which is in Complete with the final
  project \<^verbatim>\<open>Panel 1: ...\<close>, the click on the reset button leaves the stored session as it
  was: the phase is still Complete and the transcript, the system prompt and the final
  project are kept.
\<close>

theorem reset_from_complete_ignored:
  "reachable demo_complete \<and>
   phase (init_state demo_complete) = Complete \<and>
   store_of (interaction (demo_widgets CreateAnother) demo_gateway demo_complete) = demo_complete \<and>
   ending (interaction (demo_widgets CreateAnother) demo_gateway demo_complete) = Finished \<and>
   phase (init_state (store_of
     (interaction (demo_widgets CreateAnother) demo_gateway demo_complete))) = Complete \<and>
   final_project (init_state (store_of
     (interaction (demo_widgets CreateAnother) demo_gateway demo_complete))) = Some ''Panel 1: ...''"
proof -
  have eq: "interaction (demo_widgets CreateAnother) demo_gateway demo_complete =
     \<lparr>store_of = save ((init_state demo_complete)\<lparr>act := Some ''Pendleton Act (1883)'',
         project_type := Some ''A comic strip of a scenario''\<rparr>),
      rendered = Header (''Creating a '' @ py_lower ''A comic strip of a scenario'' @ '' about the '' @
                   ''Pendleton Act (1883)'') # show_history (chat_history (init_state demo_complete)),
      sent = [], ending = Finished\<rparr>"
    by (rule create_another_in_complete) (simp_all add: demo_widgets_def demo_phases)
  have st: "save ((init_state demo_complete)\<lparr>act := Some ''Pendleton Act (1883)'',
         project_type := Some ''A comic strip of a scenario''\<rparr>) = demo_complete"
    by (simp add: demo_complete_eq init_state_save)
  show ?thesis
    unfolding eq using reachable_demo(4) demo_phases(4)
    by (simp add: st) (simp add: demo_complete_eq init_state_save)
qed

subsection \<open>Prompt builder\<close>



subsection \<open>Roles in the transcript\<close>

text \<open>
  C10. In every reachable session the transcript holds only messages of role
  \<^verbatim>\<open>user\<close> or \<^verbatim>\<open>assistant\<close>. Every request a run sends starts with one system message,
  built at that call from the stored system prompt (with the final instruction appended in
  the final generation), followed by a list of user and assistant messages that extends
  the stored transcript.
\<close>

theorem transcript_roles:
  assumes "reachable st"
  shows "(\<forall>m \<in> set (chat_history (init_state st)). role m = ''user'' \<or> role m = ''assistant'') \<and>
         (\<forall>w gw. \<forall>r \<in> set (sent (script w gw st)).
            \<exists>sp c h. system_prompt (init_state st) = Some sp \<and> (c = sp \<or> c = sp @ final_suffix) \<and>
              messages r = \<lparr>role = ''system'', content = c\<rparr> # h \<and>
              prefix (chat_history (init_state st)) h \<and>
              (\<forall>m \<in> set h. role m = ''user'' \<or> role m = ''assistant''))"
proof -
  from reachable_session_inv[OF assms]
  have roles: "\<forall>m \<in> set (chat_history (init_state st)). role m = ''user'' \<or> role m = ''assistant''"
    by (simp add: session_inv_def)
  have main: "\<exists>sp c h. system_prompt s = Some sp \<and> (c = sp \<or> c = sp @ final_suffix) \<and>
              messages r = \<lparr>role = ''system'', content = c\<rparr> # h \<and>
              prefix (chat_history s) h \<and>
              (\<forall>m \<in> set h. role m = ''user'' \<or> role m = ''assistant'')"
    if "r \<in> set (sent (main_interface tr gw s))"
      "\<forall>m \<in> set (chat_history s). role m = ''user'' \<or> role m = ''assistant''"
    for r tr gw s
    using that
    by (auto simp: main_interface_def gathering_turn_def final_generation_def Let_def
        gathering_request_def final_request_def
        split: option.splits trigger.splits sum.splits if_splits)
  have sb: "system_prompt (sidebar_selection w s) = system_prompt s"
    "chat_history (sidebar_selection w s) = chat_history s" for w s
    by (simp_all add: sidebar_selection_def Let_def)
  have "\<exists>sp c h. system_prompt (init_state st) = Some sp \<and> (c = sp \<or> c = sp @ final_suffix) \<and>
              messages r = \<lparr>role = ''system'', content = c\<rparr> # h \<and>
              prefix (chat_history (init_state st)) h \<and>
              (\<forall>m \<in> set h. role m = ''user'' \<or> role m = ''assistant'')"
    if r: "r \<in> set (sent (script w gw st))" for w gw r
  proof (cases "trig w = StartCreating")
    case False
    with r have "r \<in> set (sent (main_interface (trig w) gw (sidebar_selection w (init_state st))))"
      by (simp add: script_def Let_def)
    from main[OF this] roles show ?thesis by (simp add: sb)
  next
    case True
    obtain s2 outs e where sc: "start_creating w (sidebar_selection w (init_state st)) = (s2, outs, e)"
      by (cases "start_creating w (sidebar_selection w (init_state st))") auto
    show ?thesis
    proof (cases "e = Finished")
      case False
      with r True sc show ?thesis
        by (cases e) (simp_all add: script_def Let_def)
    next
      case fin: True
      with sc have s2: "s2 = sidebar_selection w (init_state st)"
        by (auto simp: start_creating_def split: option.splits if_splits)
      from r True sc fin
      have "r \<in> set (sent (main_interface (trig w) gw s2))"
        by (simp add: script_def Let_def)
      from main[OF this] roles show ?thesis by (simp add: s2 sb)
    qed
  qed
  with roles show ?thesis by blast
qed

theorem transcript_roles_witness:
  "reachable demo_finalizing \<and>
   chat_history (init_state demo_finalizing) =
     [\<lparr>role = ''user'', content = ''I choose A, done''\<rparr>,
      \<lparr>role = ''assistant'', content = ''Great choice!''\<rparr>] \<and>
   sent (script (demo_widgets NoTrigger) demo_gateway demo_finalizing) =
     [final_request demo_prompt (chat_history (init_state demo_finalizing))] \<and>
   (\<exists>c h. messages (final_request demo_prompt (chat_history (init_state demo_finalizing))) =
            \<lparr>role = ''system'', content = c\<rparr> # h \<and>
          prefix (chat_history (init_state demo_finalizing)) h)"
proof -
  have h: "chat_history (init_state demo_finalizing) =
     [\<lparr>role = ''user'', content = ''I choose A, done''\<rparr>,
      \<lparr>role = ''assistant'', content = ''Great choice!''\<rparr>]"
    by (simp add: demo_finalizing_eq init_state_save)
  have s: "sent (script (demo_widgets NoTrigger) demo_gateway demo_finalizing) =
     [final_request demo_prompt (chat_history (init_state demo_finalizing))]"
    unfolding demo_finalizing_eq
    by (subst script_other[where a = "''Pendleton Act (1883)''" and t = "''A comic strip of a scenario''"])
       (simp_all add: demo_widgets_def init_state_save main_interface_def demo_prompt_nonempty
          final_generation_def Let_def demo_gateway_def final_request_def truthy_def)
  have "final_request demo_prompt (chat_history (init_state demo_finalizing))
          \<in> set (sent (script (demo_widgets NoTrigger) demo_gateway demo_finalizing))"
    by (simp add: s)
  with transcript_roles[OF reachable_demo(3)]
  have "\<exists>c h. messages (final_request demo_prompt (chat_history (init_state demo_finalizing))) =
            \<lparr>role = ''system'', content = c\<rparr> # h \<and>
          prefix (chat_history (init_state demo_finalizing)) h"
    by blast
  with h s reachable_demo(3) show ?thesis by blast
qed

end
